theory Spec2Isabelle
  imports Main "HOL-Library.Log_Nat"
begin

unbundle bit_operations_syntax

section \<open>Single-precision arithmetic\<close>

text \<open>
  The C++ type \<^verbatim>\<open>float\<close> is IEEE 754 binary32 with the default rounding (to nearest,
  ties to even). A finite value is kept as the exact rational it denotes; the two
  infinities and NaN are separate values. The two signed zeros are identified: the
  operations used by \<^verbatim>\<open>operation_node.cpp\<close> are \<^verbatim>\<open>+\<close>, \<^verbatim>\<open>-\<close>, \<^verbatim>\<open>*\<close> and the comparison
  with zero, and none of them tells the zeros apart.
\<close>

datatype float32 = Finite rat | PInf | NInf | NaN

text \<open>Rounding of a rational to the nearest integer, ties to the even one.\<close>

definition rne :: "rat \<Rightarrow> int" where
  "rne q = (let n = \<lfloor>q\<rfloor>; d = q - of_int n in
     if d < 1 / 2 then n else if 1 / 2 < d then n + 1 else if even n then n else n + 1)"

text \<open>The binary exponent of a positive rational: \<open>2 powi ilog2 q \<le> q < 2 powi (ilog2 q + 1)\<close>.\<close>

definition ilog2 :: "rat \<Rightarrow> int" where
  "ilog2 q = (case quotient_of q of (p, d) \<Rightarrow>
     (let k = bitlen p - bitlen d in if 2 powi k \<le> q then k else k - 1))"

text \<open>
  Rounding to the binary32 grid: 24 significant bits, the exponent not below \<open>-126\<close>
  (below it the grid is the subnormal one, of step \<open>2 powi (-149)\<close>), with no upper
  bound on the exponent yet.
\<close>

definition fl32 :: "rat \<Rightarrow> rat" where
  "fl32 q = (if q = 0 then 0 else
     (let e = max (ilog2 \<bar>q\<bar>) (- 126); u = 2 powi (e - 23) in of_int (rne (q / u)) * u))"

definition max_float :: rat where
  "max_float = (2 - 1 / 2 ^ 23) * 2 ^ 127"

text \<open>The result of an operation whose exact value is \<open>q\<close>: overflow gives an infinity.\<close>

definition round32 :: "rat \<Rightarrow> float32" where
  "round32 q = (let v = fl32 q in
     if max_float < v then PInf else if v < - max_float then NInf else Finite v)"

text \<open>A rational that is a finite binary32 value.\<close>

definition representable :: "rat \<Rightarrow> bool" where
  "representable q \<longleftrightarrow> fl32 q = q \<and> \<bar>q\<bar> \<le> max_float"

fun fadd :: "float32 \<Rightarrow> float32 \<Rightarrow> float32" where
  "fadd (Finite a) (Finite c) = round32 (a + c)"
| "fadd NaN _ = NaN"
| "fadd _ NaN = NaN"
| "fadd PInf NInf = NaN"
| "fadd NInf PInf = NaN"
| "fadd PInf _ = PInf"
| "fadd _ PInf = PInf"
| "fadd NInf _ = NInf"
| "fadd _ NInf = NInf"

fun fsub :: "float32 \<Rightarrow> float32 \<Rightarrow> float32" where
  "fsub (Finite a) (Finite c) = round32 (a - c)"
| "fsub NaN _ = NaN"
| "fsub _ NaN = NaN"
| "fsub PInf PInf = NaN"
| "fsub NInf NInf = NaN"
| "fsub PInf _ = PInf"
| "fsub _ PInf = NInf"
| "fsub NInf _ = NInf"
| "fsub _ NInf = PInf"

fun fmul :: "float32 \<Rightarrow> float32 \<Rightarrow> float32" where
  "fmul (Finite a) (Finite c) = round32 (a * c)"
| "fmul NaN _ = NaN"
| "fmul _ NaN = NaN"
| "fmul PInf (Finite c) = (if c = 0 then NaN else if 0 < c then PInf else NInf)"
| "fmul NInf (Finite c) = (if c = 0 then NaN else if 0 < c then NInf else PInf)"
| "fmul (Finite a) PInf = (if a = 0 then NaN else if 0 < a then PInf else NInf)"
| "fmul (Finite a) NInf = (if a = 0 then NaN else if 0 < a then NInf else PInf)"
| "fmul PInf PInf = PInf"
| "fmul NInf NInf = PInf"
| "fmul PInf NInf = NInf"
| "fmul NInf PInf = NInf"

instantiation float32 :: "{zero, one, plus, minus, times}"
begin

definition zero_float32 :: float32 where
  "zero_float32 = Finite 0"

definition one_float32 :: float32 where
  "one_float32 = Finite 1"

definition plus_float32 :: "float32 \<Rightarrow> float32 \<Rightarrow> float32" where
  "plus_float32 = fadd"

definition minus_float32 :: "float32 \<Rightarrow> float32 \<Rightarrow> float32" where
  "minus_float32 = fsub"

definition times_float32 :: "float32 \<Rightarrow> float32 \<Rightarrow> float32" where
  "times_float32 = fmul"

instance ..

end

section \<open>Values, colours and node types\<close>

text \<open>
  The model is generic in the type \<open>'f\<close> of a \<^verbatim>\<open>float\<close>: the node library only adds,
  subtracts and multiplies, and uses the constants \<^verbatim>\<open>0.0f\<close> and \<^verbatim>\<open>1.0f\<close>. What is proved
  for every \<open>'f\<close> holds whatever the arithmetic is; \<^typ>\<open>float32\<close> is the instance the
  compiled program runs.
\<close>

record 'f MaterialPropertyValue =
  x :: 'f
  y :: 'f
  z :: 'f
  w :: 'f

record 'f Spectrum =
  r :: 'f
  g :: 'f
  b :: 'f

text \<open>
  Modelled from the spec: the operators of \<^verbatim>\<open>MaterialPropertyValue\<close> and of \<^verbatim>\<open>Spectrum\<close>
  are declared in headers that are not among the source files modelled here
  (\<^verbatim>\<open>material_node.h\<close>, \<^verbatim>\<open>spectrum.h\<close>). The spec: "All numeric values are 3-or-4-component
  (color/vector) quantities; operations apply component-wise", the weight is "a
  color/vector multiplier", and the zero weight is "the zero color".
\<close>

definition mpv_splat :: "'f \<Rightarrow> 'f MaterialPropertyValue" where
  "mpv_splat f = \<lparr> x = f, y = f, z = f, w = f \<rparr>"

definition mpv_add :: "('f::plus) MaterialPropertyValue \<Rightarrow> 'f MaterialPropertyValue \<Rightarrow> 'f MaterialPropertyValue" where
  "mpv_add u v = \<lparr> x = x u + x v, y = y u + y v, z = z u + z v, w = w u + w v \<rparr>"

definition mpv_sub :: "('f::minus) MaterialPropertyValue \<Rightarrow> 'f MaterialPropertyValue \<Rightarrow> 'f MaterialPropertyValue" where
  "mpv_sub u v = \<lparr> x = x u - x v, y = y u - y v, z = z u - z v, w = w u - w v \<rparr>"

definition mpv_mul :: "('f::times) MaterialPropertyValue \<Rightarrow> 'f MaterialPropertyValue \<Rightarrow> 'f MaterialPropertyValue" where
  "mpv_mul u v = \<lparr> x = x u * x v, y = y u * y v, z = z u * z v, w = w u * w v \<rparr>"

definition mpv_scale :: "('f::times) MaterialPropertyValue \<Rightarrow> 'f \<Rightarrow> 'f MaterialPropertyValue" where
  "mpv_scale u f = \<lparr> x = x u * f, y = y u * f, z = z u * f, w = w u * f \<rparr>"

definition spectrum_scale :: "('f::times) Spectrum \<Rightarrow> 'f \<Rightarrow> 'f Spectrum" where
  "spectrum_scale c f = \<lparr> r = r c * f, g = g c * f, b = b c * f \<rparr>"

definition IsBlack :: "('f::zero) Spectrum \<Rightarrow> bool" where
  "IsBlack c \<longleftrightarrow> r c = 0 \<and> g c = 0 \<and> b c = 0"

text \<open>
  Modelled from the spec: the enumeration \<^verbatim>\<open>MAT_NODE_TYPE\<close> is declared in
  \<^verbatim>\<open>material_node.h\<close>, which is not among the source files modelled here. The spec: the type
  classification is "drawn from the set {Constant, Operator, BXDF} -- BXDF is a flag
  bit, distinguishable from pure numeric node types". The tags are bit masks; only two
  facts about the values are used below: the BXDF mask is not zero, and the Constant
  tag does not carry it.
\<close>

type_synonym MAT_NODE_TYPE = nat

definition MAT_NODE_CONSTANT :: MAT_NODE_TYPE where
  "MAT_NODE_CONSTANT = 1"

definition MAT_NODE_BXDF :: MAT_NODE_TYPE where
  "MAT_NODE_BXDF = 4"

section \<open>Nodes and property bindings\<close>

text \<open>
  A node of the graph is an object of one of the classes of \<^verbatim>\<open>operation_node.cpp\<close>, with
  the property slots its constructor registers, or an object of a class defined
  elsewhere (a constant, a texture, a BXDF node, ...): \<open>ExternalNode\<close>, which carries what
  its own \<^verbatim>\<open>GetNodeValue\<close>, \<^verbatim>\<open>UpdateBSDF\<close> and \<^verbatim>\<open>CheckValidation\<close> do. A property slot holds
  the pointer \<^verbatim>\<open>node\<close> (null when the slot is not linked) and a literal value. The type \<open>'b\<close>
  is the one of the \<^verbatim>\<open>Bsdf\<close> that a traversal fills.
\<close>

datatype ('f, 'b) MaterialNode =
    AddNode "('f, 'b) MaterialNodeProperty" "('f, 'b) MaterialNodeProperty"
  | SORTNodeOneMinus "('f, 'b) MaterialNodeProperty"
  | LerpNode "('f, 'b) MaterialNodeProperty" "('f, 'b) MaterialNodeProperty"
      "('f, 'b) MaterialNodeProperty"
  | BlendNode "('f, 'b) MaterialNodeProperty" "('f, 'b) MaterialNodeProperty"
      "('f, 'b) MaterialNodeProperty" "('f, 'b) MaterialNodeProperty"
  | MutiplyNode "('f, 'b) MaterialNodeProperty" "('f, 'b) MaterialNodeProperty"
  | GammaToLinearNode "('f, 'b) MaterialNodeProperty"
  | LinearToGammaNode "('f, 'b) MaterialNodeProperty"
  | NormalDecoderNode "('f, 'b) MaterialNodeProperty"
  | ExternalNode "'b \<Rightarrow> 'f MaterialPropertyValue" "'b \<Rightarrow> 'f Spectrum \<Rightarrow> 'b" bool
and ('f, 'b) MaterialNodeProperty =
    MaterialNodeProperty (node: "('f, 'b) MaterialNode option") (literal: "'f MaterialPropertyValue")

text \<open>
  What \<^verbatim>\<open>operation_node.cpp\<close> calls and the source files modelled here do not define is a parameter
  of the model: the virtual \<^verbatim>\<open>getNodeType\<close> of every node, the \<^verbatim>\<open>UpdateBSDF\<close> that the
  value-only classes inherit from \<^verbatim>\<open>MaterialNode\<close>, and the two transfer functions of
  the gamma nodes.
\<close>

record ('f, 'b) Headers =
  getNodeType :: "('f, 'b) MaterialNode \<Rightarrow> MAT_NODE_TYPE"
  MaterialNode_UpdateBSDF :: "('f, 'b) MaterialNode \<Rightarrow> 'b \<Rightarrow> 'f Spectrum \<Rightarrow> 'b option"
  GammaToLinear :: "'f \<Rightarrow> 'f"
  LinearToGamma :: "'f \<Rightarrow> 'f"

text \<open>
  The table \<^verbatim>\<open>m_props\<close> of a node, as the \<^verbatim>\<open>REGISTER_MATERIALNODE_PROPERTY\<close> lines of the
  constructors fill it.
\<close>

fun m_props :: "('f, 'b) MaterialNode \<Rightarrow> (string \<times> ('f, 'b) MaterialNodeProperty) list" where
  "m_props (AddNode src0 src1) = [(''Color1'', src0), (''Color2'', src1)]"
| "m_props (SORTNodeOneMinus src) = [(''Color'', src)]"
| "m_props (LerpNode src0 src1 factor) = [(''Color1'', src0), (''Color2'', src1), (''Factor'', factor)]"
| "m_props (BlendNode src0 src1 factor0 factor1) =
     [(''Color1'', src0), (''Color2'', src1), (''Factor1'', factor0), (''Factor2'', factor1)]"
| "m_props (MutiplyNode src0 src1) = [(''Color1'', src0), (''Color2'', src1)]"
| "m_props (GammaToLinearNode src) = [(''Color'', src)]"
| "m_props (LinearToGammaNode src) = [(''Color'', src)]"
| "m_props (NormalDecoderNode src) = [(''Color'', src)]"
| "m_props (ExternalNode gv ub cv) = []"

section \<open>Pull evaluation: GetNodeValue\<close>

text \<open>
  Modelled from the spec: \<^verbatim>\<open>MaterialNodeProperty::GetPropertyValue\<close> is defined in
  \<^verbatim>\<open>material_node.cpp\<close>, which is not among the source files modelled here. The spec
  (\<open>resolve_value\<close>): "if literal, returns it; if referencing a node, delegates to that
  node's pull-evaluation and returns its result". The equations of \<open>GetNodeValue\<close> are
  the bodies in \<^verbatim>\<open>operation_node.cpp\<close>; the literal \<^verbatim>\<open>2.0f\<close> of the normal decoder is
  written \<open>1 + 1\<close>, which is exact in binary32.
\<close>

fun GetNodeValue ::
    "('f::{zero,one,plus,minus,times}, 'b) Headers \<Rightarrow> ('f, 'b) MaterialNode \<Rightarrow> 'b \<Rightarrow> 'f MaterialPropertyValue"
and GetPropertyValue ::
    "('f, 'b) Headers \<Rightarrow> ('f, 'b) MaterialNodeProperty \<Rightarrow> 'b \<Rightarrow> 'f MaterialPropertyValue" where
  "GetNodeValue H (AddNode src0 src1) bsdf =
     mpv_add (GetPropertyValue H src0 bsdf) (GetPropertyValue H src1 bsdf)"
| "GetNodeValue H (SORTNodeOneMinus src) bsdf =
     mpv_sub (mpv_splat 1) (GetPropertyValue H src bsdf)"
| "GetNodeValue H (LerpNode src0 src1 factor) bsdf =
     (let f = x (GetPropertyValue H factor bsdf) in
      mpv_add (mpv_scale (GetPropertyValue H src0 bsdf) (1 - f))
              (mpv_scale (GetPropertyValue H src1 bsdf) f))"
| "GetNodeValue H (BlendNode src0 src1 factor0 factor1) bsdf =
     (let f0 = x (GetPropertyValue H factor0 bsdf);
          f1 = x (GetPropertyValue H factor1 bsdf) in
      mpv_add (mpv_scale (GetPropertyValue H src0 bsdf) f0)
              (mpv_scale (GetPropertyValue H src1 bsdf) f1))"
| "GetNodeValue H (MutiplyNode src0 src1) bsdf =
     mpv_mul (GetPropertyValue H src0 bsdf) (GetPropertyValue H src1 bsdf)"
| "GetNodeValue H (GammaToLinearNode src) bsdf =
     (let tmp = GetPropertyValue H src bsdf in
      tmp\<lparr> x := GammaToLinear H (x tmp), y := GammaToLinear H (y tmp), z := GammaToLinear H (z tmp) \<rparr>)"
| "GetNodeValue H (LinearToGammaNode src) bsdf =
     (let tmp = GetPropertyValue H src bsdf in
      tmp\<lparr> x := LinearToGamma H (x tmp), y := LinearToGamma H (y tmp), z := LinearToGamma H (z tmp) \<rparr>)"
| "GetNodeValue H (NormalDecoderNode src) bsdf =
     (let tmp = GetPropertyValue H src bsdf in
      \<lparr> x = (1 + 1) * x tmp - 1, y = z tmp, z = (1 + 1) * y tmp - 1, w = 0 \<rparr>)"
| "GetNodeValue H (ExternalNode gv ub cv) bsdf = gv bsdf"
| "GetPropertyValue H (MaterialNodeProperty (Some c) v) bsdf = GetNodeValue H c bsdf"
| "GetPropertyValue H (MaterialNodeProperty None v) bsdf = v"

section \<open>Push evaluation: UpdateBSDF\<close>

text \<open>
  The type a property slot is seen with: the expression
  \<^verbatim>\<open>(src.node) ? src.node->getNodeType() : MAT_NODE_CONSTANT\<close> of
  \<^verbatim>\<open>MutiplyNode::UpdateBSDF\<close> and of \<^verbatim>\<open>OperatorNode::CheckValidation\<close>.
\<close>

definition referenced_type :: "('f, 'b) Headers \<Rightarrow> ('f, 'b) MaterialNodeProperty \<Rightarrow> MAT_NODE_TYPE" where
  "referenced_type H p = (case node p of Some c \<Rightarrow> getNodeType H c | None \<Rightarrow> MAT_NODE_CONSTANT)"

text \<open>
  \<^verbatim>\<open>UpdateBSDF\<close> mutates the \<^verbatim>\<open>Bsdf\<close> it is given: the model returns the new one. The
  result \<open>None\<close> is a call through a null \<^verbatim>\<open>node\<close> pointer. The classes that do not
  override \<^verbatim>\<open>UpdateBSDF\<close> run the inherited one.
\<close>

function (sequential) UpdateBSDF ::
    "('f::{zero,one,plus,minus,times}, 'b) Headers \<Rightarrow> ('f, 'b) MaterialNode \<Rightarrow> 'b \<Rightarrow> 'f Spectrum \<Rightarrow> 'b option" where
  "UpdateBSDF H (LerpNode src0 src1 factor) bsdf weight =
     (if IsBlack weight then Some bsdf else
      let f = x (GetPropertyValue H factor bsdf) in
      case (case node src0 of
              Some c \<Rightarrow> UpdateBSDF H c bsdf (spectrum_scale weight (1 - f))
            | None \<Rightarrow> Some bsdf) of
        None \<Rightarrow> None
      | Some bsdf1 \<Rightarrow>
          (case node src1 of
             Some c \<Rightarrow> UpdateBSDF H c bsdf1 (spectrum_scale weight f)
           | None \<Rightarrow> Some bsdf1))"
| "UpdateBSDF H (BlendNode src0 src1 factor0 factor1) bsdf weight =
     (if IsBlack weight then Some bsdf else
      let f0 = x (GetPropertyValue H factor0 bsdf);
          f1 = y (GetPropertyValue H factor1 bsdf) in
      case (case node src0 of
              Some c \<Rightarrow> UpdateBSDF H c bsdf (spectrum_scale weight f0)
            | None \<Rightarrow> Some bsdf) of
        None \<Rightarrow> None
      | Some bsdf1 \<Rightarrow>
          (case node src1 of
             Some c \<Rightarrow> UpdateBSDF H c bsdf1 (spectrum_scale weight f1)
           | None \<Rightarrow> Some bsdf1))"
| "UpdateBSDF H (MutiplyNode src0 src1) bsdf weight =
     (if IsBlack weight then Some bsdf else
      let type0 = referenced_type H src0;
          type1 = referenced_type H src1 in
      if type0 AND MAT_NODE_BXDF \<noteq> 0 then
        (case node src0 of
           Some c \<Rightarrow> UpdateBSDF H c bsdf (spectrum_scale weight (x (GetPropertyValue H src1 bsdf)))
         | None \<Rightarrow> None)
      else if type1 AND MAT_NODE_BXDF \<noteq> 0 then
        (case node src1 of
           Some c \<Rightarrow> UpdateBSDF H c bsdf (spectrum_scale weight (x (GetPropertyValue H src0 bsdf)))
         | None \<Rightarrow> None)
      else Some bsdf)"
| "UpdateBSDF H (ExternalNode gv ub cv) bsdf weight = Some (ub bsdf weight)"
| "UpdateBSDF H n bsdf weight = MaterialNode_UpdateBSDF H n bsdf weight"
  by pat_completeness auto
termination
proof (relation "measure (\<lambda>(H, n, bsdf, weight). size n)", goal_cases)
  case 1
  show ?case by simp
next
  case (2 H src0 src1 factor bsdf weight f c)
  then show ?case by (cases src0) simp
next
  case (3 H src0 src1 factor bsdf weight f bsdf1 c)
  then show ?case by (cases src1) simp
next
  case (4 H src0 src1 factor0 factor1 bsdf weight f0 f1 c)
  then show ?case by (cases src0) simp
next
  case (5 H src0 src1 factor0 factor1 bsdf weight f0 f1 bsdf1 c)
  then show ?case by (cases src1) simp
next
  case (6 H src0 src1 bsdf weight type0 type1 c)
  then show ?case by (cases src0) simp
next
  case (7 H src0 src1 bsdf weight type0 type1 c)
  then show ?case by (cases src1) simp
qed

section \<open>Validation: CheckValidation\<close>

text \<open>
  The loop of \<^verbatim>\<open>OperatorNode::CheckValidation\<close> over \<^verbatim>\<open>m_props\<close>: the first slot whose type
  carries the BXDF flag sets \<^verbatim>\<open>m_node_valid\<close> to false and leaves the loop.
\<close>

fun CheckValidation_loop ::
    "('f, 'b) Headers \<Rightarrow> bool \<Rightarrow> (string \<times> ('f, 'b) MaterialNodeProperty) list \<Rightarrow> bool" where
  "CheckValidation_loop H m_node_valid [] = m_node_valid"
| "CheckValidation_loop H m_node_valid (input # rest) =
     (let type = referenced_type H (snd input) in
      if type AND MAT_NODE_BXDF \<noteq> 0 then False
      else CheckValidation_loop H m_node_valid rest)"

text \<open>
  \<^verbatim>\<open>OperatorNode::CheckValidation\<close>, given what \<^verbatim>\<open>MaterialNode::CheckValidation()\<close> returned
  and the table \<^verbatim>\<open>m_props\<close>. The result is the pair of the field \<^verbatim>\<open>m_node_valid\<close> after
  the call and of the value returned.
\<close>

definition OperatorNode_CheckValidation ::
    "('f, 'b) Headers \<Rightarrow> bool \<Rightarrow> (string \<times> ('f, 'b) MaterialNodeProperty) list \<Rightarrow> bool \<times> bool" where
  "OperatorNode_CheckValidation H base props =
     (let m_node_valid = CheckValidation_loop H base props in (m_node_valid, m_node_valid))"

text \<open>
  Modelled from the spec: the class declarations are in \<^verbatim>\<open>operation_node.h\<close>, which is
  not among the source files modelled here. The spec: the "pure algebraic Operator nodes (Add,
  OneMinus, GammaToLinear, LinearToGamma, NormalDecode)" are subject to the type
  rule of the Operator nodes, while "only explicit mixing nodes (Lerp/Blend/Multiply
  acting as BSDF routers) are permitted to hold BXDF-typed children".
\<close>

fun derives_OperatorNode :: "('f, 'b) MaterialNode \<Rightarrow> bool" where
  "derives_OperatorNode (AddNode src0 src1) = True"
| "derives_OperatorNode (SORTNodeOneMinus src) = True"
| "derives_OperatorNode (GammaToLinearNode src) = True"
| "derives_OperatorNode (LinearToGammaNode src) = True"
| "derives_OperatorNode (NormalDecoderNode src) = True"
| "derives_OperatorNode n = False"

text \<open>
  Modelled from the spec: \<^verbatim>\<open>MaterialNode::CheckValidation\<close> is defined in
  \<^verbatim>\<open>material_node.cpp\<close>, which is not among the source files modelled here, and so is the
  validation of the three routers. The spec: a node "recurses into referenced nodes",
  "a single bad node invalidates the whole material", and "Multiply with both children
  BXDF-typed" is a "validation-time rejection". In \<open>CheckValidation\<close> the value \<open>base\<close> is
  what the inherited method returns: every linked node of the table is valid. A node of
  a class defined elsewhere answers for itself.
\<close>

function (sequential) CheckValidation :: "('f, 'b) Headers \<Rightarrow> ('f, 'b) MaterialNode \<Rightarrow> bool" where
  "CheckValidation H (ExternalNode gv ub cv) = cv"
| "CheckValidation H n =
     (let base = list_all (\<lambda>input. case node (snd input) of
                                      Some c \<Rightarrow> CheckValidation H c
                                    | None \<Rightarrow> True) (m_props n) in
      if derives_OperatorNode n then snd (OperatorNode_CheckValidation H base (m_props n))
      else case n of
             MutiplyNode src0 src1 \<Rightarrow>
               base \<and> \<not> (referenced_type H src0 AND MAT_NODE_BXDF \<noteq> 0 \<and>
                          referenced_type H src1 AND MAT_NODE_BXDF \<noteq> 0)
           | _ \<Rightarrow> base)"
  by pat_completeness auto
termination
proof -
  have smaller: "size c < size p" if "node p = Some c"
    for p :: "('f, 'b) MaterialNodeProperty" and c
    using that by (cases p) simp
  show ?thesis
    by (relation "measure (\<lambda>(H, n). size n)") (auto dest!: smaller)
qed

text \<open>
  The shape the type rule forbids, in the words of the spec ("an Operator node's binding
  resolves (possibly transitively through Constant/Operator indirection) to a
  BXDF-typed node"): the node, or a node reached from it along the links of the nodes of
  \<^verbatim>\<open>operation_node.cpp\<close>, is an Operator node with a slot linked to a node whose type
  carries the BXDF flag.
\<close>

function (sequential) resolves_to_BXDF :: "('f, 'b) Headers \<Rightarrow> ('f, 'b) MaterialNode \<Rightarrow> bool" where
  "resolves_to_BXDF H (ExternalNode gv ub cv) = False"
| "resolves_to_BXDF H n =
     ((derives_OperatorNode n \<and>
       list_ex (\<lambda>input. case node (snd input) of
                          Some c \<Rightarrow> getNodeType H c AND MAT_NODE_BXDF \<noteq> 0
                        | None \<Rightarrow> False) (m_props n)) \<or>
      list_ex (\<lambda>input. case node (snd input) of
                         Some c \<Rightarrow> resolves_to_BXDF H c
                       | None \<Rightarrow> False) (m_props n))"
  by pat_completeness auto
termination
proof -
  have smaller: "size c < size p" if "node p = Some c"
    for p :: "('f, 'b) MaterialNodeProperty" and c
    using that by (cases p) simp
  show ?thesis
    by (relation "measure (\<lambda>(H, n). size n)") (auto dest!: smaller)
qed

text \<open>
  A component on which \<^verbatim>\<open>1.0f - c\<close> is computed without rounding: it is a finite
  binary32 value, and so is the exact difference. (On an infinity or a NaN nothing is
  rounded.)
\<close>

definition exact_one_minus :: "float32 \<Rightarrow> bool" where
  "exact_one_minus c = (case c of Finite q \<Rightarrow> representable q \<and> representable (1 - q) | _ \<Rightarrow> True)"

section \<open>Example graphs\<close>

text \<open>
  Concrete inputs for the statements below. A slot is either \<open>unlinked\<close>, with its literal,
  or \<open>linked\<close> to a node. \<open>constant_node v\<close> stands for a node of a class defined
  elsewhere whose value is \<open>v\<close>, and \<open>lobe k\<close> for a BXDF node, which adds the lobe \<open>k\<close>
  with the weight it receives to the \<^verbatim>\<open>Bsdf\<close>. In \<open>example_Headers\<close> the nodes of the classes
  defined elsewhere are the BXDF nodes, the others carry the Operator tag, and the inherited
  \<^verbatim>\<open>UpdateBSDF\<close> does nothing.
\<close>

definition MAT_NODE_OPERATOR :: MAT_NODE_TYPE where
  "MAT_NODE_OPERATOR = 8"

definition unlinked :: "'f MaterialPropertyValue \<Rightarrow> ('f, 'b) MaterialNodeProperty" where
  "unlinked v = MaterialNodeProperty None v"

definition linked :: "('f::zero, 'b) MaterialNode \<Rightarrow> ('f, 'b) MaterialNodeProperty" where
  "linked n = MaterialNodeProperty (Some n) (mpv_splat 0)"

definition constant_node :: "'f MaterialPropertyValue \<Rightarrow> ('f, 'b) MaterialNode" where
  "constant_node v = ExternalNode (\<lambda>bsdf. v) (\<lambda>bsdf weight. bsdf) True"

definition lobe :: "nat \<Rightarrow> (float32, (nat \<times> float32 Spectrum) list) MaterialNode" where
  "lobe k = ExternalNode (\<lambda>bsdf. mpv_splat 0) (\<lambda>bsdf weight. bsdf @ [(k, weight)]) True"

definition example_Headers :: "(float32, (nat \<times> float32 Spectrum) list) Headers" where
  "example_Headers =
     \<lparr> getNodeType = (\<lambda>n. case n of ExternalNode gv ub cv \<Rightarrow> MAT_NODE_BXDF | _ \<Rightarrow> MAT_NODE_OPERATOR),
       MaterialNode_UpdateBSDF = (\<lambda>n bsdf weight. Some bsdf),
       GammaToLinear = (\<lambda>f. f),
       LinearToGamma = (\<lambda>f. f) \<rparr>"

definition white :: "float32 Spectrum" where
  "white = \<lparr> r = 1, g = 1, b = 1 \<rparr>"

definition black :: "float32 Spectrum" where
  "black = \<lparr> r = 0, g = 0, b = 0 \<rparr>"

definition scalar :: "float32 \<Rightarrow> float32 MaterialPropertyValue" where
  "scalar f = \<lparr> x = f, y = 0, z = 0, w = 0 \<rparr>"

definition tiny :: "float32 MaterialPropertyValue" where
  "tiny = mpv_splat (Finite (1 / 2 ^ 30))"

text \<open>
  The same headers, except that the inherited \<^verbatim>\<open>UpdateBSDF\<close> leaves a trace: a value-only
  node that is called adds the entry \<open>9\<close> with the weight it receives.
\<close>

definition recording_Headers :: "(float32, (nat \<times> float32 Spectrum) list) Headers" where
  "recording_Headers =
     \<lparr> getNodeType = (\<lambda>n. case n of ExternalNode gv ub cv \<Rightarrow> MAT_NODE_BXDF | _ \<Rightarrow> MAT_NODE_OPERATOR),
       MaterialNode_UpdateBSDF = (\<lambda>n bsdf weight. Some (bsdf @ [(9, weight)])),
       GammaToLinear = (\<lambda>f. f),
       LinearToGamma = (\<lambda>f. f) \<rparr>"

definition quarter_sum :: "(float32, (nat \<times> float32 Spectrum) list) MaterialNode" where
  "quarter_sum = AddNode (unlinked (scalar (Finite (1 / 4)))) (unlinked (scalar (Finite (1 / 4))))"

definition half :: "float32 Spectrum" where
  "half = \<lparr> r = Finite (1 / 2), g = Finite (1 / 2), b = Finite (1 / 2) \<rparr>"

section \<open>Facts about the model\<close>

lemma constant_not_bxdf: "MAT_NODE_CONSTANT AND MAT_NODE_BXDF = 0"
  by (simp add: MAT_NODE_CONSTANT_def MAT_NODE_BXDF_def)

lemma referenced_type_unbound: "node p = None \<Longrightarrow> referenced_type H p = MAT_NODE_CONSTANT"
  by (simp add: referenced_type_def)

lemma bxdf_typed_is_bound:
  "referenced_type H p AND MAT_NODE_BXDF \<noteq> 0 \<Longrightarrow>
     \<exists>c. node p = Some c \<and> getNodeType H c AND MAT_NODE_BXDF \<noteq> 0"
  by (cases "node p") (simp_all add: referenced_type_def constant_not_bxdf)

text \<open>
  Known values of single precision, as a check of the rounding: \<^verbatim>\<open>0.1f\<close> is
  \<open>13421773 / 2 ^ 27\<close>; \<open>2 ^ 24 + 1\<close> is a tie and goes to the even neighbour, \<open>2 ^ 24 + 3\<close>
  goes up to \<open>2 ^ 24 + 4\<close>; the smallest subnormal is \<open>2 powi (-149)\<close> and half of it is a
  tie that goes to zero; the largest finite value is kept and \<open>2 ^ 128\<close> overflows.
\<close>

lemma round32_examples:
  "round32 (1 / 10) = Finite (13421773 / 2 ^ 27)"
  "round32 (2 ^ 24 + 1) = Finite (2 ^ 24)"
  "round32 (2 ^ 24 + 3) = Finite (2 ^ 24 + 4)"
  "round32 (1 / 2 ^ 149) = Finite (1 / 2 ^ 149)"
  "round32 (1 / 2 ^ 150) = Finite 0"
  "round32 (- (3 / 2 ^ 150)) = Finite (- (1 / 2 ^ 148))"
  "round32 max_float = Finite max_float"
  "round32 (2 ^ 128) = PInf"
  "round32 (- (2 ^ 128)) = NInf"
  by code_simp+

lemma round32_representable: "representable q \<Longrightarrow> round32 q = Finite q"
  by (auto simp: round32_def representable_def Let_def)

lemma one_minus_twice_float32: "exact_one_minus c \<Longrightarrow> (1::float32) - (1 - c) = c"
  by (cases c)
    (simp_all add: exact_one_minus_def minus_float32_def one_float32_def round32_representable)

lemma OneMinus_formula:
  "GetNodeValue H (SORTNodeOneMinus src) bsdf =
     \<lparr> x = 1 - x (GetPropertyValue H src bsdf), y = 1 - y (GetPropertyValue H src bsdf),
       z = 1 - z (GetPropertyValue H src bsdf), w = 1 - w (GetPropertyValue H src bsdf) \<rparr>"
  by (simp add: mpv_sub_def mpv_splat_def)

lemma lerp_floats:
  "(1::float32) * (1 - round32 (3 / 10)) + 0 * round32 (3 / 10) = round32 (7 / 10)"
  "(0::float32) * (1 - round32 (3 / 10)) + 1 * round32 (3 / 10) = round32 (3 / 10)"
  "(0::float32) * (1 - round32 (3 / 10)) + 0 * round32 (3 / 10) = 0"
  "round32 (3 / 10) = Finite (5033165 / 16777216)"
  "round32 (7 / 10) = Finite (11744051 / 16777216)"
  by code_simp+

lemma decode_floats:
  "(1 + 1 :: float32) = Finite 2"
  "Finite 2 * Finite (1 / 2) - 1 = Finite 0"
  by code_simp+

lemma loop_rejects:
  "input \<in> set props \<Longrightarrow> referenced_type H (snd input) AND MAT_NODE_BXDF \<noteq> 0 \<Longrightarrow>
     CheckValidation_loop H v props = False"
  by (induction props) (auto simp: Let_def)

lemma loop_keeps:
  "\<forall>input \<in> set props. referenced_type H (snd input) AND MAT_NODE_BXDF = 0 \<Longrightarrow>
     CheckValidation_loop H v props = v"
  by (induction props) (auto simp: Let_def)

lemma loop_implies_base: "CheckValidation_loop H v props \<Longrightarrow> v"
  by (induction props) (auto simp: Let_def split: if_splits)

lemma direct_rejects:
  assumes "list_ex (\<lambda>input. case node (snd input) of
                          Some c \<Rightarrow> getNodeType H c AND MAT_NODE_BXDF \<noteq> 0
                        | None \<Rightarrow> False) props"
  shows "\<not> CheckValidation_loop H v props"
proof -
  from assms obtain input c where "input \<in> set props" "node (snd input) = Some c"
      "getNodeType H c AND MAT_NODE_BXDF \<noteq> 0"
    by (auto simp: list_ex_iff split: option.splits)
  then show ?thesis
    using loop_rejects [of input props H v] by (simp add: referenced_type_def)
qed

lemma child_rejects:
  assumes "list_ex (\<lambda>input. case node (snd input) of Some c \<Rightarrow> R c | None \<Rightarrow> False) props"
    and "\<And>input c. input \<in> set props \<Longrightarrow> node (snd input) = Some c \<Longrightarrow> R c \<Longrightarrow> \<not> V c"
  shows "\<not> list_all (\<lambda>input. case node (snd input) of Some c \<Rightarrow> V c | None \<Rightarrow> True) props"
  using assms by (auto simp: list_ex_iff list_all_iff split: option.splits)

text \<open>
  A failure below invalidates the node above: by induction on the size of the node, the
  inherited validation being false as soon as one linked node is rejected.
\<close>

lemma resolves_rejected: "resolves_to_BXDF H n \<Longrightarrow> \<not> CheckValidation H n"
proof (induction n rule: measure_induct_rule [where f = size])
  case (less n)
  have smaller: "size c < size n"
    if "input \<in> set (m_props n)" "node (snd input) = Some c" for input c
    using that by (cases n; cases "snd input") auto
  show ?case
  proof (cases "\<exists>gv ub cv. n = ExternalNode gv ub cv")
    case True
    with less.prems show ?thesis by auto
  next
    case False
    then have r: "resolves_to_BXDF H n =
     ((derives_OperatorNode n \<and>
       list_ex (\<lambda>input. case node (snd input) of
                          Some c \<Rightarrow> getNodeType H c AND MAT_NODE_BXDF \<noteq> 0
                        | None \<Rightarrow> False) (m_props n)) \<or>
      list_ex (\<lambda>input. case node (snd input) of
                         Some c \<Rightarrow> resolves_to_BXDF H c
                       | None \<Rightarrow> False) (m_props n))"
      by (cases n) simp_all
    define base where "base = list_all (\<lambda>input. case node (snd input) of
                                      Some c \<Rightarrow> CheckValidation H c
                                    | None \<Rightarrow> True) (m_props n)"
    from False have c: "CheckValidation H n =
      (if derives_OperatorNode n then snd (OperatorNode_CheckValidation H base (m_props n))
      else case n of
             MutiplyNode src0 src1 \<Rightarrow>
               base \<and> \<not> (referenced_type H src0 AND MAT_NODE_BXDF \<noteq> 0 \<and>
                          referenced_type H src1 AND MAT_NODE_BXDF \<noteq> 0)
           | _ \<Rightarrow> base)"
      unfolding base_def by (cases n) (simp_all add: Let_def)
    have valid_base: "CheckValidation H n \<Longrightarrow> base"
      unfolding c
      by (auto simp: OperatorNode_CheckValidation_def Let_def dest: loop_implies_base
          split: if_splits MaterialNode.splits)
    from less.prems r consider
      (direct) "derives_OperatorNode n" "list_ex (\<lambda>input. case node (snd input) of
                          Some c \<Rightarrow> getNodeType H c AND MAT_NODE_BXDF \<noteq> 0
                        | None \<Rightarrow> False) (m_props n)"
      | (below) "list_ex (\<lambda>input. case node (snd input) of
                         Some c \<Rightarrow> resolves_to_BXDF H c
                       | None \<Rightarrow> False) (m_props n)"
      by auto
    then show ?thesis
    proof cases
      case direct
      then show ?thesis
        unfolding c using direct_rejects [of H "m_props n" base]
        by (simp add: OperatorNode_CheckValidation_def Let_def)
    next
      case below
      have "\<not> base"
        unfolding base_def
        by (rule child_rejects [OF below]) (use less.IH smaller in blast)
      with valid_base show ?thesis by blast
    qed
  qed
qed

lemma node_linked: "node (linked n) = Some n"
  by (simp add: linked_def)

lemma node_unlinked: "node (unlinked v) = None"
  by (simp add: unlinked_def)

section \<open>Blend\<close>

text \<open>
  C1 (as amended). For every Blend node, \<^verbatim>\<open>GetNodeValue\<close> returns \<open>a * f0 + b * f1\<close>,
  component by component: \<open>a\<close> and \<open>b\<close> are the resolved values of \<^verbatim>\<open>Color1\<close> and \<^verbatim>\<open>Color2\<close>,
  \<open>f0\<close> is the first component of the resolved value of \<^verbatim>\<open>Factor1\<close> and \<open>f1\<close> the first
  component of the resolved value of \<^verbatim>\<open>Factor2\<close>. The two terms have each their own factor.
\<close>

theorem BlendNode_GetNodeValue_two_factors:
  "GetNodeValue H (BlendNode src0 src1 factor0 factor1) bsdf =
     \<lparr> x = x (GetPropertyValue H src0 bsdf) * x (GetPropertyValue H factor0 bsdf) +
           x (GetPropertyValue H src1 bsdf) * x (GetPropertyValue H factor1 bsdf),
       y = y (GetPropertyValue H src0 bsdf) * x (GetPropertyValue H factor0 bsdf) +
           y (GetPropertyValue H src1 bsdf) * x (GetPropertyValue H factor1 bsdf),
       z = z (GetPropertyValue H src0 bsdf) * x (GetPropertyValue H factor0 bsdf) +
           z (GetPropertyValue H src1 bsdf) * x (GetPropertyValue H factor1 bsdf),
       w = w (GetPropertyValue H src0 bsdf) * x (GetPropertyValue H factor0 bsdf) +
           w (GetPropertyValue H src1 bsdf) * x (GetPropertyValue H factor1 bsdf) \<rparr>"
  by (simp add: Let_def mpv_add_def mpv_scale_def)

text \<open>
  The Blend of the literals \<open>a = 0\<close>, \<open>b = 1\<close> with the factors \<open>f0 = 0\<close> and \<open>f1 = 1\<close> is \<open>1\<close>
  in every component.
\<close>

theorem BlendNode_GetNodeValue_two_factors_witness:
  "GetNodeValue example_Headers
     (BlendNode (unlinked (mpv_splat 0)) (unlinked (mpv_splat 1))
        (unlinked (scalar 0)) (unlinked (scalar 1))) [] = mpv_splat 1"
  using BlendNode_GetNodeValue_two_factors [of example_Headers
      "unlinked (mpv_splat 0)" "unlinked (mpv_splat 1)" "unlinked (scalar 0)" "unlinked (scalar 1)" "[]"]
  by code_simp

text \<open>
  C1 as the spec states it, with the factor \<open>f0\<close> of \<^verbatim>\<open>Factor1\<close> on both terms, is not what
  the node returns: on the same input \<open>a * f0 + b * f0\<close> is \<open>0\<close>.
\<close>

theorem BlendNode_GetNodeValue_same_factor_fails:
  "GetNodeValue example_Headers
     (BlendNode (unlinked (mpv_splat 0)) (unlinked (mpv_splat 1))
        (unlinked (scalar 0)) (unlinked (scalar 1))) [] \<noteq>
   mpv_add (mpv_scale (GetPropertyValue example_Headers (unlinked (mpv_splat 0)) [])
                      (x (GetPropertyValue example_Headers (unlinked (scalar 0)) [])))
           (mpv_scale (GetPropertyValue example_Headers (unlinked (mpv_splat 1)) [])
                      (x (GetPropertyValue example_Headers (unlinked (scalar 0)) [])))"
  by code_simp

text \<open>
  C2. \<^verbatim>\<open>BlendNode::UpdateBSDF\<close> on a white weight, both children BXDF nodes and both factors
  the scalar \<open>1\<close>, that is \<open>(1, 0, 0, 0)\<close>: the first child receives the white weight, the
  second one a black weight, because its factor is read from the second component of
  \<^verbatim>\<open>Factor2\<close>; the weight scaled by the first component of \<^verbatim>\<open>Factor2\<close> would be white.
\<close>

theorem BlendNode_UpdateBSDF_second_factor:
  "UpdateBSDF example_Headers
     (BlendNode (linked (lobe 0)) (linked (lobe 2)) (unlinked (scalar 1)) (unlinked (scalar 1)))
     [] white = Some [(0, white), (2, black)] \<and>
   spectrum_scale white (x (GetPropertyValue example_Headers (unlinked (scalar 1)) [])) = white \<and>
   spectrum_scale white (y (GetPropertyValue example_Headers (unlinked (scalar 1)) [])) = black \<and>
   white \<noteq> black"
  by code_simp

text \<open>
  C10. For every Blend node and every weight that is not black, a child whose slot is not
  linked is skipped: with no child linked \<^verbatim>\<open>UpdateBSDF\<close> returns with the \<^verbatim>\<open>Bsdf\<close> as
  it was, and with one child linked it is exactly the call of \<^verbatim>\<open>UpdateBSDF\<close> on that child,
  with the weight scaled by the factor the code reads for it. No call goes through the
  null pointer: a failure can only be the one of the linked child.
\<close>

theorem BlendNode_unbound_children:
  "\<not> IsBlack weight \<Longrightarrow>
     (node src0 = None \<and> node src1 = None \<longrightarrow>
        UpdateBSDF H (BlendNode src0 src1 factor0 factor1) bsdf weight = Some bsdf) \<and>
     (node src0 = Some c0 \<and> node src1 = None \<longrightarrow>
        UpdateBSDF H (BlendNode src0 src1 factor0 factor1) bsdf weight =
          UpdateBSDF H c0 bsdf (spectrum_scale weight (x (GetPropertyValue H factor0 bsdf)))) \<and>
     (node src0 = None \<and> node src1 = Some c1 \<longrightarrow>
        UpdateBSDF H (BlendNode src0 src1 factor0 factor1) bsdf weight =
          UpdateBSDF H c1 bsdf (spectrum_scale weight (y (GetPropertyValue H factor1 bsdf))))"
  by (auto simp: Let_def split: option.splits)

theorem BlendNode_unbound_children_witness:
  "\<not> IsBlack white \<and>
   UpdateBSDF example_Headers
     (BlendNode (unlinked (mpv_splat 1)) (unlinked (mpv_splat 1)) (unlinked (mpv_splat 1)) (unlinked (mpv_splat 1)))
     [] white = Some [] \<and>
   UpdateBSDF example_Headers
     (BlendNode (linked (lobe 0)) (unlinked (mpv_splat 1)) (unlinked (mpv_splat 1)) (unlinked (mpv_splat 1)))
     [] white = Some [(0, white)] \<and>
   UpdateBSDF example_Headers
     (BlendNode (unlinked (mpv_splat 1)) (linked (lobe 2)) (unlinked (mpv_splat 1)) (unlinked (mpv_splat 1)))
     [] white = Some [(2, white)]"
proof -
  have h: "\<not> IsBlack white"
    by code_simp
  have e: "UpdateBSDF example_Headers (lobe 0) []
             (spectrum_scale white (x (GetPropertyValue example_Headers (unlinked (mpv_splat 1)) []))) =
           Some [(0, white)]"
    "UpdateBSDF example_Headers (lobe 2) []
             (spectrum_scale white (y (GetPropertyValue example_Headers (unlinked (mpv_splat 1)) []))) =
           Some [(2, white)]"
    by code_simp+
  show ?thesis
    using BlendNode_unbound_children [OF h, of "unlinked (mpv_splat 1)" "unlinked (mpv_splat 1)"
        example_Headers "unlinked (mpv_splat 1)" "unlinked (mpv_splat 1)" "[]" "lobe 0" "lobe 2"]
      BlendNode_unbound_children [OF h, of "linked (lobe 0)" "unlinked (mpv_splat 1)"
        example_Headers "unlinked (mpv_splat 1)" "unlinked (mpv_splat 1)" "[]" "lobe 0" "lobe 2"]
      BlendNode_unbound_children [OF h, of "unlinked (mpv_splat 1)" "linked (lobe 2)"
        example_Headers "unlinked (mpv_splat 1)" "unlinked (mpv_splat 1)" "[]" "lobe 0" "lobe 2"]
    by (simp only: h e node_linked node_unlinked simp_thms option.simps)
qed

section \<open>The zero weight\<close>

text \<open>
  C3. For each of the three routers (Lerp, Blend, Multiply), whatever the slots hold and
  whatever the \<^verbatim>\<open>Bsdf\<close> is, \<^verbatim>\<open>UpdateBSDF\<close> with a black weight returns at once: the \<^verbatim>\<open>Bsdf\<close>
  is the one it was given and no child is called, be it a child that would change the
  \<^verbatim>\<open>Bsdf\<close> or one whose call would fail.
\<close>

theorem router_zero_weight:
  "IsBlack weight \<Longrightarrow>
     UpdateBSDF H (LerpNode src0 src1 factor) bsdf weight = Some bsdf \<and>
     UpdateBSDF H (BlendNode src0 src1 factor0 factor1) bsdf weight = Some bsdf \<and>
     UpdateBSDF H (MutiplyNode src0 src1) bsdf weight = Some bsdf"
  by simp

theorem router_zero_weight_witness:
  "IsBlack black \<and>
   UpdateBSDF example_Headers
     (LerpNode (linked (lobe 0)) (linked (lobe 2)) (unlinked (scalar 1))) [(5, white)] black =
     Some [(5, white)] \<and>
   UpdateBSDF example_Headers
     (BlendNode (linked (lobe 0)) (linked (lobe 2)) (unlinked (scalar 1)) (unlinked (mpv_splat 1)))
     [(5, white)] black = Some [(5, white)] \<and>
   UpdateBSDF example_Headers
     (MutiplyNode (linked (lobe 0)) (linked (lobe 2))) [(5, white)] black = Some [(5, white)] \<and>
   UpdateBSDF example_Headers (lobe 0) [(5, white)] black \<noteq> Some [(5, white)]"
proof -
  have h: "IsBlack black"
    by code_simp
  have c: "UpdateBSDF example_Headers (lobe 0) [(5, white)] black \<noteq> Some [(5, white)]"
    by code_simp
  show ?thesis
    using router_zero_weight [OF h, of example_Headers "linked (lobe 0)" "linked (lobe 2)"
        "unlinked (scalar 1)" "[(5, white)]" "unlinked (scalar 1)" "unlinked (mpv_splat 1)"] h c
    by (simp only: simp_thms)
qed

section \<open>Lerp\<close>

text \<open>
  C5. For every Lerp node, \<^verbatim>\<open>GetNodeValue\<close> returns \<open>a * (1 - f) + b * f\<close>, component by
  component, where \<open>f\<close> is the first component of the resolved value of \<^verbatim>\<open>Factor\<close>. In
  particular, in single precision, the Lerp of a constant colour \<open>(1, 0, 0)\<close> and a constant
  colour \<open>(0, 1, 0)\<close> with the constant factor \<open>0.3\<close> has the first three components
  \<open>(0.7, 0.3, 0)\<close>, the decimals standing for the nearest binary32 values.
\<close>

theorem LerpNode_GetNodeValue:
  "GetNodeValue H (LerpNode src0 src1 factor) bsdf =
     \<lparr> x = x (GetPropertyValue H src0 bsdf) * (1 - x (GetPropertyValue H factor bsdf)) +
           x (GetPropertyValue H src1 bsdf) * x (GetPropertyValue H factor bsdf),
       y = y (GetPropertyValue H src0 bsdf) * (1 - x (GetPropertyValue H factor bsdf)) +
           y (GetPropertyValue H src1 bsdf) * x (GetPropertyValue H factor bsdf),
       z = z (GetPropertyValue H src0 bsdf) * (1 - x (GetPropertyValue H factor bsdf)) +
           z (GetPropertyValue H src1 bsdf) * x (GetPropertyValue H factor bsdf),
       w = w (GetPropertyValue H src0 bsdf) * (1 - x (GetPropertyValue H factor bsdf)) +
           w (GetPropertyValue H src1 bsdf) * x (GetPropertyValue H factor bsdf) \<rparr> \<and>
   x (GetNodeValue H32
        (LerpNode (linked (constant_node \<lparr> x = 1, y = 0, z = 0, w = w0 \<rparr>))
                  (linked (constant_node \<lparr> x = 0, y = 1, z = 0, w = w1 \<rparr>))
                  (linked (constant_node \<lparr> x = round32 (3 / 10), y = fy, z = fz, w = fw \<rparr>)))
        bsdf32) = round32 (7 / 10) \<and>
   y (GetNodeValue H32
        (LerpNode (linked (constant_node \<lparr> x = 1, y = 0, z = 0, w = w0 \<rparr>))
                  (linked (constant_node \<lparr> x = 0, y = 1, z = 0, w = w1 \<rparr>))
                  (linked (constant_node \<lparr> x = round32 (3 / 10), y = fy, z = fz, w = fw \<rparr>)))
        bsdf32) = round32 (3 / 10) \<and>
   z (GetNodeValue H32
        (LerpNode (linked (constant_node \<lparr> x = 1, y = 0, z = 0, w = w0 \<rparr>))
                  (linked (constant_node \<lparr> x = 0, y = 1, z = 0, w = w1 \<rparr>))
                  (linked (constant_node \<lparr> x = round32 (3 / 10), y = fy, z = fz, w = fw \<rparr>)))
        bsdf32) = 0 \<and>
   round32 (7 / 10) = Finite (11744051 / 16777216) \<and>
   round32 (3 / 10) = Finite (5033165 / 16777216)"
proof (intro conjI)
  show "round32 (7 / 10) = Finite (11744051 / 16777216)"
    and "round32 (3 / 10) = Finite (5033165 / 16777216)"
    by (rule lerp_floats)+
qed (simp_all add: Let_def linked_def constant_node_def mpv_add_def mpv_scale_def lerp_floats(1-3))

theorem LerpNode_GetNodeValue_witness:
  "x (GetNodeValue example_Headers
        (LerpNode (linked (constant_node \<lparr> x = 1, y = 0, z = 0, w = 0 \<rparr>))
                  (linked (constant_node \<lparr> x = 0, y = 1, z = 0, w = 0 \<rparr>))
                  (linked (constant_node \<lparr> x = round32 (3 / 10), y = 0, z = 0, w = 0 \<rparr>)))
        []) = round32 (7 / 10) \<and>
   y (GetNodeValue example_Headers
        (LerpNode (linked (constant_node \<lparr> x = 1, y = 0, z = 0, w = 0 \<rparr>))
                  (linked (constant_node \<lparr> x = 0, y = 1, z = 0, w = 0 \<rparr>))
                  (linked (constant_node \<lparr> x = round32 (3 / 10), y = 0, z = 0, w = 0 \<rparr>)))
        []) = round32 (3 / 10) \<and>
   z (GetNodeValue example_Headers
        (LerpNode (linked (constant_node \<lparr> x = 1, y = 0, z = 0, w = 0 \<rparr>))
                  (linked (constant_node \<lparr> x = 0, y = 1, z = 0, w = 0 \<rparr>))
                  (linked (constant_node \<lparr> x = round32 (3 / 10), y = 0, z = 0, w = 0 \<rparr>)))
        []) = 0 \<and>
   round32 (7 / 10) = Finite (11744051 / 16777216) \<and>
   round32 (3 / 10) = Finite (5033165 / 16777216)"
  by (rule LerpNode_GetNodeValue [of example_Headers
      "linked (constant_node \<lparr> x = 1, y = 0, z = 0, w = 0 \<rparr>)"
      "linked (constant_node \<lparr> x = 0, y = 1, z = 0, w = 0 \<rparr>)"
      "linked (constant_node \<lparr> x = round32 (3 / 10), y = 0, z = 0, w = 0 \<rparr>)" "[]"
      example_Headers 0 0 0 0 0 "[]", THEN conjunct2])

text \<open>
  C6. For every Lerp node and every weight that is not black, with \<open>f\<close> the first
  component of the resolved value of \<^verbatim>\<open>Factor\<close>: \<^verbatim>\<open>UpdateBSDF\<close> calls \<^verbatim>\<open>UpdateBSDF\<close> of the
  node of \<^verbatim>\<open>Color1\<close> with the weight scaled by \<open>1 - f\<close>, then the one of the node of
  \<^verbatim>\<open>Color2\<close> with the weight scaled by \<open>f\<close>, each call being made only when the slot is linked;
  a slot that is not linked is skipped.
\<close>

theorem LerpNode_UpdateBSDF:
  "\<not> IsBlack weight \<Longrightarrow> f = x (GetPropertyValue H factor bsdf) \<Longrightarrow>
     (node src0 = None \<and> node src1 = None \<longrightarrow>
        UpdateBSDF H (LerpNode src0 src1 factor) bsdf weight = Some bsdf) \<and>
     (node src0 = Some c0 \<and> node src1 = None \<longrightarrow>
        UpdateBSDF H (LerpNode src0 src1 factor) bsdf weight =
          UpdateBSDF H c0 bsdf (spectrum_scale weight (1 - f))) \<and>
     (node src0 = None \<and> node src1 = Some c1 \<longrightarrow>
        UpdateBSDF H (LerpNode src0 src1 factor) bsdf weight =
          UpdateBSDF H c1 bsdf (spectrum_scale weight f)) \<and>
     (node src0 = Some c0 \<and> node src1 = Some c1 \<longrightarrow>
        UpdateBSDF H (LerpNode src0 src1 factor) bsdf weight =
          Option.bind (UpdateBSDF H c0 bsdf (spectrum_scale weight (1 - f)))
            (\<lambda>bsdf1. UpdateBSDF H c1 bsdf1 (spectrum_scale weight f)))"
  by (auto simp: Let_def split: option.splits)

theorem LerpNode_UpdateBSDF_witness:
  "\<not> IsBlack white \<and>
   UpdateBSDF example_Headers
     (LerpNode (unlinked (mpv_splat 1)) (unlinked (mpv_splat 1)) (unlinked (scalar (Finite (1 / 4)))))
     [] white = Some [] \<and>
   UpdateBSDF example_Headers
     (LerpNode (linked (lobe 0)) (unlinked (mpv_splat 1)) (unlinked (scalar (Finite (1 / 4)))))
     [] white = Some [(0, \<lparr> r = Finite (3 / 4), g = Finite (3 / 4), b = Finite (3 / 4) \<rparr>)] \<and>
   UpdateBSDF example_Headers
     (LerpNode (unlinked (mpv_splat 1)) (linked (lobe 2)) (unlinked (scalar (Finite (1 / 4)))))
     [] white = Some [(2, \<lparr> r = Finite (1 / 4), g = Finite (1 / 4), b = Finite (1 / 4) \<rparr>)] \<and>
   UpdateBSDF example_Headers
     (LerpNode (linked (lobe 0)) (linked (lobe 2)) (unlinked (scalar (Finite (1 / 4)))))
     [] white = Some [(0, \<lparr> r = Finite (3 / 4), g = Finite (3 / 4), b = Finite (3 / 4) \<rparr>),
                      (2, \<lparr> r = Finite (1 / 4), g = Finite (1 / 4), b = Finite (1 / 4) \<rparr>)]"
proof -
  have h: "\<not> IsBlack white"
    by code_simp
  have f: "Finite (1 / 4) = x (GetPropertyValue example_Headers (unlinked (scalar (Finite (1 / 4)))) [])"
    by code_simp
  have e: "UpdateBSDF example_Headers (lobe 0) [] (spectrum_scale white (1 - Finite (1 / 4))) =
             Some [(0, \<lparr> r = Finite (3 / 4), g = Finite (3 / 4), b = Finite (3 / 4) \<rparr>)]"
    "UpdateBSDF example_Headers (lobe 2) [] (spectrum_scale white (Finite (1 / 4))) =
             Some [(2, \<lparr> r = Finite (1 / 4), g = Finite (1 / 4), b = Finite (1 / 4) \<rparr>)]"
    "UpdateBSDF example_Headers (lobe 2)
       [(0, \<lparr> r = Finite (3 / 4), g = Finite (3 / 4), b = Finite (3 / 4) \<rparr>)]
       (spectrum_scale white (Finite (1 / 4))) =
     Some [(0, \<lparr> r = Finite (3 / 4), g = Finite (3 / 4), b = Finite (3 / 4) \<rparr>),
           (2, \<lparr> r = Finite (1 / 4), g = Finite (1 / 4), b = Finite (1 / 4) \<rparr>)]"
    by code_simp+
  show ?thesis
    using LerpNode_UpdateBSDF [OF h f, of "unlinked (mpv_splat 1)" "unlinked (mpv_splat 1)" "lobe 0" "lobe 2"]
      LerpNode_UpdateBSDF [OF h f, of "linked (lobe 0)" "unlinked (mpv_splat 1)" "lobe 0" "lobe 2"]
      LerpNode_UpdateBSDF [OF h f, of "unlinked (mpv_splat 1)" "linked (lobe 2)" "lobe 0" "lobe 2"]
      LerpNode_UpdateBSDF [OF h f, of "linked (lobe 0)" "linked (lobe 2)" "lobe 0" "lobe 2"]
    by (simp only: h e node_linked node_unlinked simp_thms option.simps Option.bind.simps)
qed

section \<open>Multiply\<close>

text \<open>
  C4. For every Multiply node and every weight that is not black, \<^verbatim>\<open>UpdateBSDF\<close> looks at the
  type tag of each of the two children, the tag of a linked slot being the \<^verbatim>\<open>getNodeType\<close>
  of its node and a slot that is not linked counting as Constant (which does not carry the
  BXDF flag). If exactly one child is BXDF-typed (its slot is linked to a node whose tag
  carries the flag, the other slot is not linked or linked to a node whose tag does not),
  the result is the call of \<^verbatim>\<open>UpdateBSDF\<close> on that node alone, with the weight scaled by the
  first component of the resolved value of the other slot. If neither child is BXDF-typed,
  nothing is called and the \<^verbatim>\<open>Bsdf\<close> is as it was.
\<close>

theorem MutiplyNode_UpdateBSDF:
  "\<not> IsBlack weight \<Longrightarrow>
     (node src0 = None \<longrightarrow> referenced_type H src0 = MAT_NODE_CONSTANT) \<and>
     (node src1 = None \<longrightarrow> referenced_type H src1 = MAT_NODE_CONSTANT) \<and>
     (node src0 = Some c0 \<longrightarrow> referenced_type H src0 = getNodeType H c0) \<and>
     (node src1 = Some c1 \<longrightarrow> referenced_type H src1 = getNodeType H c1) \<and>
     MAT_NODE_CONSTANT AND MAT_NODE_BXDF = 0 \<and>
     (node src0 = Some c0 \<and> getNodeType H c0 AND MAT_NODE_BXDF \<noteq> 0 \<and>
      (node src1 = None \<or> node src1 = Some c1 \<and> getNodeType H c1 AND MAT_NODE_BXDF = 0) \<longrightarrow>
        UpdateBSDF H (MutiplyNode src0 src1) bsdf weight =
          UpdateBSDF H c0 bsdf (spectrum_scale weight (x (GetPropertyValue H src1 bsdf)))) \<and>
     ((node src0 = None \<or> node src0 = Some c0 \<and> getNodeType H c0 AND MAT_NODE_BXDF = 0) \<and>
      node src1 = Some c1 \<and> getNodeType H c1 AND MAT_NODE_BXDF \<noteq> 0 \<longrightarrow>
        UpdateBSDF H (MutiplyNode src0 src1) bsdf weight =
          UpdateBSDF H c1 bsdf (spectrum_scale weight (x (GetPropertyValue H src0 bsdf)))) \<and>
     ((node src0 = None \<or> node src0 = Some c0 \<and> getNodeType H c0 AND MAT_NODE_BXDF = 0) \<and>
      (node src1 = None \<or> node src1 = Some c1 \<and> getNodeType H c1 AND MAT_NODE_BXDF = 0) \<longrightarrow>
        UpdateBSDF H (MutiplyNode src0 src1) bsdf weight = Some bsdf)"
  by (auto simp: Let_def referenced_type_def constant_not_bxdf)

text \<open>
  With headers whose value-only nodes leave a trace when they are called: a BXDF node
  beside a literal \<open>1/2\<close>, on either side, receives half the weight; beside a linked Add
  node of value \<open>1/2\<close> it receives half the weight and the Add node is not called; a literal
  beside the Add node, and two literals, leave the \<^verbatim>\<open>Bsdf\<close> empty, while a call of the Add
  node would have left its trace.
\<close>

theorem MutiplyNode_UpdateBSDF_witness:
  "\<not> IsBlack white \<and>
   UpdateBSDF recording_Headers
     (MutiplyNode (linked (lobe 0)) (unlinked (scalar (Finite (1 / 2))))) [] white = Some [(0, half)] \<and>
   UpdateBSDF recording_Headers
     (MutiplyNode (unlinked (scalar (Finite (1 / 2)))) (linked (lobe 0))) [] white = Some [(0, half)] \<and>
   UpdateBSDF recording_Headers
     (MutiplyNode (linked (lobe 0)) (linked quarter_sum)) [] white = Some [(0, half)] \<and>
   UpdateBSDF recording_Headers
     (MutiplyNode (linked quarter_sum) (linked (lobe 0))) [] white = Some [(0, half)] \<and>
   UpdateBSDF recording_Headers
     (MutiplyNode (unlinked (scalar (Finite (1 / 2)))) (linked quarter_sum)) [] white = Some [] \<and>
   UpdateBSDF recording_Headers
     (MutiplyNode (linked quarter_sum) (linked quarter_sum)) [] white = Some [] \<and>
   UpdateBSDF recording_Headers
     (MutiplyNode (unlinked (scalar (Finite (1 / 2)))) (unlinked (scalar (Finite (1 / 2))))) [] white = Some [] \<and>
   UpdateBSDF recording_Headers quarter_sum [] white = Some [(9, white)]"
proof -
  have h: "\<not> IsBlack white"
    by code_simp
  have t: "getNodeType recording_Headers (lobe 0) AND MAT_NODE_BXDF \<noteq> 0"
    "getNodeType recording_Headers quarter_sum AND MAT_NODE_BXDF = 0"
    by (simp_all add: recording_Headers_def lobe_def quarter_sum_def
        MAT_NODE_BXDF_def MAT_NODE_OPERATOR_def)
  have e: "UpdateBSDF recording_Headers (lobe 0) []
             (spectrum_scale white
                (x (GetPropertyValue recording_Headers (unlinked (scalar (Finite (1 / 2)))) []))) =
           Some [(0, half)]"
    "UpdateBSDF recording_Headers (lobe 0) []
             (spectrum_scale white (x (GetPropertyValue recording_Headers (linked quarter_sum) []))) =
           Some [(0, half)]"
    "UpdateBSDF recording_Headers quarter_sum [] white = Some [(9, white)]"
    by code_simp+
  note m = MutiplyNode_UpdateBSDF [OF h, where H = recording_Headers and bsdf = "[]"
      and ?c0.0 = "lobe 0" and ?c1.0 = quarter_sum]
  note m' = MutiplyNode_UpdateBSDF [OF h, where H = recording_Headers and bsdf = "[]"
      and ?c0.0 = quarter_sum and ?c1.0 = "lobe 0"]
  note m'' = MutiplyNode_UpdateBSDF [OF h, where H = recording_Headers and bsdf = "[]"
      and ?c0.0 = quarter_sum and ?c1.0 = quarter_sum]
  show ?thesis
    using m [where ?src0.0 = "linked (lobe 0)" and ?src1.0 = "unlinked (scalar (Finite (1 / 2)))"]
      m' [where ?src0.0 = "unlinked (scalar (Finite (1 / 2)))" and ?src1.0 = "linked (lobe 0)"]
      m [where ?src0.0 = "linked (lobe 0)" and ?src1.0 = "linked quarter_sum"]
      m' [where ?src0.0 = "linked quarter_sum" and ?src1.0 = "linked (lobe 0)"]
      m'' [where ?src0.0 = "unlinked (scalar (Finite (1 / 2)))" and ?src1.0 = "linked quarter_sum"]
      m'' [where ?src0.0 = "linked quarter_sum" and ?src1.0 = "linked quarter_sum"]
      m'' [where ?src0.0 = "unlinked (scalar (Finite (1 / 2)))"
        and ?src1.0 = "unlinked (scalar (Finite (1 / 2)))"]
    by (simp only: h t e node_linked node_unlinked simp_thms option.simps)
qed

section \<open>Validation of the Operator nodes\<close>

text \<open>
  C7. \<^verbatim>\<open>OperatorNode::CheckValidation\<close>, whatever the inherited validation answered: if a
  slot of the table is linked to a node whose type carries the BXDF flag, the field
  \<^verbatim>\<open>m_node_valid\<close> ends false and false is returned. The rejection goes up through the
  recursive validation: a node from which an Operator node with such a slot is reached is
  not valid. A slot that is not linked has the type Constant, which does not carry the flag,
  and when every slot of the table is either not linked or linked to a node without the flag,
  the field and the value returned are what the inherited validation answered.
\<close>

theorem OperatorNode_CheckValidation_BXDF:
  "((\<exists>input \<in> set props. \<exists>c. node (snd input) = Some c \<and> getNodeType H c AND MAT_NODE_BXDF \<noteq> 0) \<longrightarrow>
      OperatorNode_CheckValidation H base props = (False, False)) \<and>
   (derives_OperatorNode n \<longrightarrow>
      CheckValidation H n =
        snd (OperatorNode_CheckValidation H
               (list_all (\<lambda>input. case node (snd input) of
                                     Some c \<Rightarrow> CheckValidation H c
                                   | None \<Rightarrow> True) (m_props n))
               (m_props n))) \<and>
   (resolves_to_BXDF H m \<longrightarrow> \<not> CheckValidation H m) \<and>
   (node p = None \<longrightarrow>
      referenced_type H p = MAT_NODE_CONSTANT \<and> referenced_type H p AND MAT_NODE_BXDF = 0) \<and>
   ((\<forall>input \<in> set props'.
        node (snd input) = None \<or>
        (\<exists>c. node (snd input) = Some c \<and> getNodeType H c AND MAT_NODE_BXDF = 0)) \<longrightarrow>
      OperatorNode_CheckValidation H base' props' = (base', base'))"
proof (intro conjI impI)
  assume "\<exists>input \<in> set props. \<exists>c. node (snd input) = Some c \<and> getNodeType H c AND MAT_NODE_BXDF \<noteq> 0"
  then obtain input c where "input \<in> set props" "node (snd input) = Some c"
      "getNodeType H c AND MAT_NODE_BXDF \<noteq> 0"
    by blast
  then have "CheckValidation_loop H base props = False"
    using loop_rejects [of input props H base] by (simp add: referenced_type_def)
  then show "OperatorNode_CheckValidation H base props = (False, False)"
    by (simp add: OperatorNode_CheckValidation_def)
next
  assume "derives_OperatorNode n"
  then show "CheckValidation H n =
        snd (OperatorNode_CheckValidation H
               (list_all (\<lambda>input. case node (snd input) of
                                     Some c \<Rightarrow> CheckValidation H c
                                   | None \<Rightarrow> True) (m_props n))
               (m_props n))"
    by (cases n) (simp_all add: Let_def)
next
  assume "resolves_to_BXDF H m"
  then show "\<not> CheckValidation H m"
    by (rule resolves_rejected)
next
  assume "node p = None"
  then show "referenced_type H p = MAT_NODE_CONSTANT"
    and "referenced_type H p AND MAT_NODE_BXDF = 0"
    by (simp_all add: referenced_type_def constant_not_bxdf)
next
  assume "\<forall>input \<in> set props'.
        node (snd input) = None \<or>
        (\<exists>c. node (snd input) = Some c \<and> getNodeType H c AND MAT_NODE_BXDF = 0)"
  then have "\<forall>input \<in> set props'. referenced_type H (snd input) AND MAT_NODE_BXDF = 0"
    by (auto simp: referenced_type_def constant_not_bxdf)
  then have "CheckValidation_loop H base' props' = base'"
    by (rule loop_keeps)
  then show "OperatorNode_CheckValidation H base' props' = (base', base')"
    by (simp add: OperatorNode_CheckValidation_def)
qed

theorem OperatorNode_CheckValidation_BXDF_witness:
  "OperatorNode_CheckValidation example_Headers True
     [(''Color1'', unlinked (mpv_splat 1)), (''Color2'', linked (lobe 0))] = (False, False) \<and>
   \<not> CheckValidation example_Headers
       (AddNode (unlinked (mpv_splat 1)) (linked (SORTNodeOneMinus (linked (lobe 0))))) \<and>
   referenced_type example_Headers (unlinked (mpv_splat 1)) = MAT_NODE_CONSTANT \<and>
   OperatorNode_CheckValidation example_Headers True
     [(''Color1'', unlinked (mpv_splat 1)), (''Color2'', linked (AddNode (unlinked (mpv_splat 1)) (unlinked (mpv_splat 1))))] =
     (True, True)"
proof -
  have a: "\<exists>input \<in> set [(''Color1'', unlinked (mpv_splat 1)), (''Color2'', linked (lobe 0))].
             \<exists>c. node (snd input) = Some c \<and> getNodeType example_Headers c AND MAT_NODE_BXDF \<noteq> 0"
    by (simp add: node_linked node_unlinked example_Headers_def lobe_def MAT_NODE_BXDF_def)
  have b: "resolves_to_BXDF example_Headers
       (AddNode (unlinked (mpv_splat 1)) (linked (SORTNodeOneMinus (linked (lobe 0)))))"
    by (simp add: node_linked node_unlinked example_Headers_def lobe_def MAT_NODE_BXDF_def)
  have c: "node (unlinked (mpv_splat 1) :: (float32, (nat \<times> float32 Spectrum) list) MaterialNodeProperty) = None"
    by (rule node_unlinked)
  have d: "\<forall>input \<in> set [(''Color1'', unlinked (mpv_splat 1)),
              (''Color2'', linked (AddNode (unlinked (mpv_splat 1)) (unlinked (mpv_splat 1))))].
        node (snd input) = None \<or>
        (\<exists>c. node (snd input) = Some c \<and> getNodeType example_Headers c AND MAT_NODE_BXDF = 0)"
    by (simp add: node_linked node_unlinked example_Headers_def MAT_NODE_BXDF_def MAT_NODE_OPERATOR_def)
  show ?thesis
    using OperatorNode_CheckValidation_BXDF [of
        "[(''Color1'', unlinked (mpv_splat 1)), (''Color2'', linked (lobe 0))]" example_Headers True
        "AddNode (unlinked (mpv_splat 1)) (linked (SORTNodeOneMinus (linked (lobe 0))))"
        "AddNode (unlinked (mpv_splat 1)) (linked (SORTNodeOneMinus (linked (lobe 0))))"
        "unlinked (mpv_splat 1)"
        "[(''Color1'', unlinked (mpv_splat 1)),
          (''Color2'', linked (AddNode (unlinked (mpv_splat 1)) (unlinked (mpv_splat 1))))]" True]
      a b c d
    by blast
qed

section \<open>OneMinus\<close>

text \<open>
  C8 (as amended). \<^verbatim>\<open>SORTNodeOneMinus::GetNodeValue\<close> returns \<open>1 - a\<close>, component by component,
  in the arithmetic of \<^verbatim>\<open>float\<close>. Applied twice it gives the input back on every component
  on which the subtraction \<open>1 - c\<close> is exact (the component and the exact difference are both
  binary32 values; or the component is an infinity or a NaN), and in an arithmetic without
  rounding (a ring) it gives the input back always.
\<close>

theorem OneMinus_twice:
  "GetNodeValue H (SORTNodeOneMinus src) bsdf =
     \<lparr> x = 1 - x (GetPropertyValue H src bsdf), y = 1 - y (GetPropertyValue H src bsdf),
       z = 1 - z (GetPropertyValue H src bsdf), w = 1 - w (GetPropertyValue H src bsdf) \<rparr> \<and>
   (GetPropertyValue H32 src32 bsdf32 = v \<and>
    exact_one_minus (x v) \<and> exact_one_minus (y v) \<and> exact_one_minus (z v) \<and> exact_one_minus (w v) \<longrightarrow>
      GetNodeValue H32 (SORTNodeOneMinus (MaterialNodeProperty (Some (SORTNodeOneMinus src32)) u)) bsdf32 = v) \<and>
   GetNodeValue Hr (SORTNodeOneMinus (MaterialNodeProperty (Some (SORTNodeOneMinus srcr)) ur)) bsdfr =
     (GetPropertyValue Hr srcr bsdfr :: ('r::ring_1) MaterialPropertyValue)"
proof (intro conjI impI)
  show "GetNodeValue H (SORTNodeOneMinus src) bsdf =
     \<lparr> x = 1 - x (GetPropertyValue H src bsdf), y = 1 - y (GetPropertyValue H src bsdf),
       z = 1 - z (GetPropertyValue H src bsdf), w = 1 - w (GetPropertyValue H src bsdf) \<rparr>"
    by (rule OneMinus_formula)
next
  assume "GetPropertyValue H32 src32 bsdf32 = v \<and>
    exact_one_minus (x v) \<and> exact_one_minus (y v) \<and> exact_one_minus (z v) \<and> exact_one_minus (w v)"
  then show "GetNodeValue H32 (SORTNodeOneMinus (MaterialNodeProperty (Some (SORTNodeOneMinus src32)) u)) bsdf32 = v"
    by (cases v) (simp add: mpv_sub_def mpv_splat_def one_minus_twice_float32)
next
  show "GetNodeValue Hr (SORTNodeOneMinus (MaterialNodeProperty (Some (SORTNodeOneMinus srcr)) ur)) bsdfr =
     (GetPropertyValue Hr srcr bsdfr :: ('r::ring_1) MaterialPropertyValue)"
    by (cases "GetPropertyValue Hr srcr bsdfr") (simp add: mpv_sub_def mpv_splat_def)
qed

text \<open>
  On the value \<open>(1/2, 3/4, 1, 0)\<close> every subtraction is exact, and the node applied twice
  returns it.
\<close>

theorem OneMinus_twice_witness:
  "exact_one_minus (Finite (1 / 2)) \<and> exact_one_minus (Finite (3 / 4)) \<and>
   exact_one_minus (Finite 1) \<and> exact_one_minus (Finite 0) \<and>
   GetNodeValue example_Headers
     (SORTNodeOneMinus (MaterialNodeProperty
        (Some (SORTNodeOneMinus
           (unlinked \<lparr> x = Finite (1 / 2), y = Finite (3 / 4), z = Finite 1, w = Finite 0 \<rparr>)))
        (mpv_splat 0))) [] =
     \<lparr> x = Finite (1 / 2), y = Finite (3 / 4), z = Finite 1, w = Finite 0 \<rparr>"
proof -
  have e: "exact_one_minus (Finite (1 / 2))" "exact_one_minus (Finite (3 / 4))"
    "exact_one_minus (Finite 1)" "exact_one_minus (Finite 0)"
    by code_simp+
  have p: "GetPropertyValue example_Headers
      (unlinked \<lparr> x = Finite (1 / 2), y = Finite (3 / 4), z = Finite 1, w = Finite 0 \<rparr>) [] =
      \<lparr> x = Finite (1 / 2), y = Finite (3 / 4), z = Finite 1, w = Finite 0 \<rparr>"
    by (simp add: unlinked_def)
  show ?thesis
    using OneMinus_twice [where ?H32.0 = example_Headers and ?bsdf32.0 = "[]"
        and ?src32.0 = "unlinked \<lparr> x = Finite (1 / 2), y = Finite (3 / 4), z = Finite 1, w = Finite 0 \<rparr>"
        and v = "\<lparr> x = Finite (1 / 2), y = Finite (3 / 4), z = Finite 1, w = Finite 0 \<rparr>"
        and u = "mpv_splat 0", THEN conjunct2, THEN conjunct1] e p
    by (simp only: simp_thms MaterialPropertyValue.simps)
qed

text \<open>
  C8 as the spec states it, for every input: the value \<open>2 powi (-30)\<close> is a binary32 value,
  \<open>1 - 2 powi (-30)\<close> rounds to \<open>1\<close>, and the node applied twice returns \<open>0\<close>, not the input.
\<close>

theorem OneMinus_twice_counterexample:
  "representable (1 / 2 ^ 30) \<and>
   GetNodeValue example_Headers (SORTNodeOneMinus (linked (SORTNodeOneMinus (unlinked tiny)))) [] =
     mpv_splat 0 \<and>
   GetNodeValue example_Headers (SORTNodeOneMinus (linked (SORTNodeOneMinus (unlinked tiny)))) [] \<noteq>
     tiny"
  by code_simp

section \<open>The normal decoder\<close>

text \<open>
  C9. \<^verbatim>\<open>NormalDecoderNode::GetNodeValue\<close> on the resolved value \<open>a\<close> of its slot returns the
  four components \<open>(2 * a.x - 1, a.z, 2 * a.y - 1, 0)\<close>, the constant \<open>2\<close> being \<open>1 + 1\<close>, which
  in single precision is exactly \<open>2\<close>. In single precision, on the input \<open>(0.5, 0.5, 1.0)\<close>
  the result is \<open>(0, 1, 0, 0)\<close>.
\<close>

theorem NormalDecoderNode_GetNodeValue:
  "GetNodeValue H (NormalDecoderNode src) bsdf =
     \<lparr> x = (1 + 1) * x (GetPropertyValue H src bsdf) - 1,
       y = z (GetPropertyValue H src bsdf),
       z = (1 + 1) * y (GetPropertyValue H src bsdf) - 1,
       w = 0 \<rparr> \<and>
   (1 + 1 :: float32) = Finite 2 \<and>
   GetNodeValue H32
     (NormalDecoderNode (unlinked \<lparr> x = Finite (1 / 2), y = Finite (1 / 2), z = Finite 1, w = w0 \<rparr>))
     bsdf32 = \<lparr> x = Finite 0, y = Finite 1, z = Finite 0, w = Finite 0 \<rparr>"
  by (simp add: Let_def unlinked_def decode_floats zero_float32_def)

theorem NormalDecoderNode_GetNodeValue_witness:
  "GetNodeValue example_Headers
     (NormalDecoderNode (unlinked \<lparr> x = Finite (1 / 2), y = Finite (1 / 2), z = Finite 1, w = Finite 1 \<rparr>))
     [] = \<lparr> x = Finite 0, y = Finite 1, z = Finite 0, w = Finite 0 \<rparr>"
  by (rule NormalDecoderNode_GetNodeValue [where ?H32.0 = example_Headers and ?bsdf32.0 = "[]"
        and ?w0.0 = "Finite 1", THEN conjunct2, THEN conjunct2])

end
